theory Spec2Isabelle
  imports Main "HOL-Library.Word" "HOL-Library.List_Lexorder"
begin

unbundle bit_operations_syntax

section \<open>Python values\<close>

text \<open>
  A Python \<open>str\<close> is a sequence of Unicode code points, so slicing (\<open>text[:20]\<close>) and
  \<open>len\<close> count code points, and \<open>str.encode()\<close> turns them into UTF-8 bytes. String
  literals of the source are ASCII and written through \<open>str\<close>.
\<close>

type_synonym codepoint = nat
type_synonym pystr = "codepoint list"
type_synonym byte = "8 word"

definition str :: "string \<Rightarrow> pystr" where
  "str s = map of_char s"

text \<open>
  The exceptions the modelled code can raise. The payload is the message, except for the
  two attribute errors: \<open>FrozenInstanceError\<close> carries what was tried and the name of the
  attribute, \<open>AttributeError\<close> the name.
\<close>

datatype attr_action = Assigning | Deleting

datatype error =
    ValueError pystr
  | BadParameter pystr
  | UnicodeEncodeError
  | IndexError
  | KeyError
  | TypeError
  | AttributeError pystr
  | FrozenInstanceError attr_action pystr
  | JSONDecodeError pystr
  | SynthesisBackendError pystr
  | AudioDecodeError
  | EmptyBatchError

text \<open>\<open>sep.join(xs)\<close>: the elements of \<open>xs\<close> in order, with \<open>sep\<close> between neighbours.\<close>

fun join :: "'a list \<Rightarrow> 'a list list \<Rightarrow> 'a list" where
  "join sep [] = []"
| "join sep [x] = x"
| "join sep (x # y # ys) = x @ sep @ join sep (y # ys)"

subsection \<open>\<open>str.lower()\<close>\<close>

text \<open>
  On a string of ASCII code points \<open>str.lower()\<close> maps \<open>A\<close>..\<open>Z\<close> to \<open>a\<close>..\<open>z\<close> and
  leaves the rest. On any other string CPython applies the Unicode case tables (with
  the context rule for final sigma); they are not part of the repository, so that case
  is the parameter \<open>unicode_lower\<close>.
\<close>

definition ascii_lower :: "codepoint \<Rightarrow> codepoint" where
  "ascii_lower c = (if 65 \<le> c \<and> c \<le> 90 then c + 32 else c)"

definition is_ascii :: "pystr \<Rightarrow> bool" where
  "is_ascii s = list_all (\<lambda>c. c < 128) s"

definition lower :: "(pystr \<Rightarrow> pystr) \<Rightarrow> pystr \<Rightarrow> pystr" where
  "lower unicode_lower s = (if is_ascii s then map ascii_lower s else unicode_lower s)"

subsection \<open>\<open>str.encode()\<close>: UTF-8, strict\<close>

text \<open>
  A lone surrogate (U+D800..U+DFFF) cannot be encoded: \<open>str.encode()\<close> raises
  \<open>UnicodeEncodeError\<close>. Code points from \<open>0x110000\<close> on do not occur in a Python string;
  the model rejects them as well.
\<close>

definition utf8_cont :: "nat \<Rightarrow> byte" where
  "utf8_cont n = of_nat (128 + n mod 64)"

definition encode_codepoint :: "codepoint \<Rightarrow> error + byte list" where
  "encode_codepoint c =
     (if c < 0x80 then Inr [of_nat c]
      else if c < 0x800 then Inr [of_nat (192 + c div 64), utf8_cont c]
      else if 0xD800 \<le> c \<and> c \<le> 0xDFFF then Inl UnicodeEncodeError
      else if c < 0x10000 then
        Inr [of_nat (224 + c div 4096), utf8_cont (c div 64), utf8_cont c]
      else if c < 0x110000 then
        Inr [of_nat (240 + c div 262144), utf8_cont (c div 4096), utf8_cont (c div 64),
             utf8_cont c]
      else Inl UnicodeEncodeError)"

fun encode :: "pystr \<Rightarrow> error + byte list" where
  "encode [] = Inr []"
| "encode (c # cs) =
     (case encode_codepoint c of
        Inl e \<Rightarrow> Inl e
      | Inr bs \<Rightarrow> (case encode cs of Inl e \<Rightarrow> Inl e | Inr rest \<Rightarrow> Inr (bs @ rest)))"

section \<open>\<open>hashlib.md5\<close> (RFC 1321)\<close>

type_synonym u32 = "32 word"

definition md5_K :: "u32 list" where
  "md5_K = [
    0xd76aa478, 0xe8c7b756, 0x242070db, 0xc1bdceee,
    0xf57c0faf, 0x4787c62a, 0xa8304613, 0xfd469501,
    0x698098d8, 0x8b44f7af, 0xffff5bb1, 0x895cd7be,
    0x6b901122, 0xfd987193, 0xa679438e, 0x49b40821,
    0xf61e2562, 0xc040b340, 0x265e5a51, 0xe9b6c7aa,
    0xd62f105d, 0x02441453, 0xd8a1e681, 0xe7d3fbc8,
    0x21e1cde6, 0xc33707d6, 0xf4d50d87, 0x455a14ed,
    0xa9e3e905, 0xfcefa3f8, 0x676f02d9, 0x8d2a4c8a,
    0xfffa3942, 0x8771f681, 0x6d9d6122, 0xfde5380c,
    0xa4beea44, 0x4bdecfa9, 0xf6bb4b60, 0xbebfbc70,
    0x289b7ec6, 0xeaa127fa, 0xd4ef3085, 0x04881d05,
    0xd9d4d039, 0xe6db99e5, 0x1fa27cf8, 0xc4ac5665,
    0xf4292244, 0x432aff97, 0xab9423a7, 0xfc93a039,
    0x655b59c3, 0x8f0ccc92, 0xffeff47d, 0x85845dd1,
    0x6fa87e4f, 0xfe2ce6e0, 0xa3014314, 0x4e0811a1,
    0xf7537e82, 0xbd3af235, 0x2ad7d2bb, 0xeb86d391]"

definition md5_shift :: "nat list" where
  "md5_shift = [
    7, 12, 17, 22, 7, 12, 17, 22, 7, 12, 17, 22, 7, 12, 17, 22,
    5, 9, 14, 20, 5, 9, 14, 20, 5, 9, 14, 20, 5, 9, 14, 20,
    4, 11, 16, 23, 4, 11, 16, 23, 4, 11, 16, 23, 4, 11, 16, 23,
    6, 10, 15, 21, 6, 10, 15, 21, 6, 10, 15, 21, 6, 10, 15, 21]"

definition rotl32 :: "nat \<Rightarrow> u32 \<Rightarrow> u32" where
  "rotl32 n x = push_bit n x OR drop_bit (32 - n) x"

text \<open>The four state words \<open>(A, B, C, D)\<close>; one of the 64 operations on a block \<open>m\<close>.\<close>

type_synonym md5_state = "u32 \<times> u32 \<times> u32 \<times> u32"

definition md5_step :: "u32 list \<Rightarrow> nat \<Rightarrow> md5_state \<Rightarrow> md5_state" where
  "md5_step m i st =
     (case st of (a, b, c, d) \<Rightarrow>
        let f = (if i < 16 then (b AND c) OR (NOT b AND d)
                 else if i < 32 then (d AND b) OR (NOT d AND c)
                 else if i < 48 then b XOR c XOR d
                 else c XOR (b OR NOT d));
            g = (if i < 16 then i
                 else if i < 32 then (5 * i + 1) mod 16
                 else if i < 48 then (3 * i + 5) mod 16
                 else (7 * i) mod 16);
            f' = f + a + md5_K ! i + m ! g
        in (d, b + rotl32 (md5_shift ! i) f', b, c))"

definition le_word32 :: "byte list \<Rightarrow> u32" where
  "le_word32 bs = foldr (\<lambda>b w. ucast b OR push_bit 8 w) bs 0"

fun chunks :: "nat \<Rightarrow> 'a list \<Rightarrow> 'a list list" where
  "chunks n xs = (if n = 0 \<or> xs = [] then [] else take n xs # chunks n (drop n xs))"

declare chunks.simps [simp del]

definition md5_block :: "md5_state \<Rightarrow> byte list \<Rightarrow> md5_state" where
  "md5_block st block =
     (let m = map le_word32 (chunks 4 block) in
      case st of (a0, b0, c0, d0) \<Rightarrow>
      case fold (md5_step m) [0..<64] st of (a, b, c, d) \<Rightarrow>
        (a0 + a, b0 + b, c0 + c, d0 + d))"

text \<open>The \<open>k\<close> low bytes of a word, least significant first.\<close>

definition le_bytes :: "nat \<Rightarrow> 'a::len word \<Rightarrow> byte list" where
  "le_bytes k w = map (\<lambda>i. ucast (drop_bit (8 * i) w)) [0..<k]"

text \<open>
  Padding: a one bit, zero bits up to 56 bytes modulo 64, then the length of the message
  in bits as a 64-bit little-endian number.
\<close>

definition md5_pad :: "byte list \<Rightarrow> byte list" where
  "md5_pad msg =
     msg @ [0x80] @ replicate ((119 - length msg mod 64) mod 64) 0
         @ le_bytes 8 (8 * (of_nat (length msg) :: 64 word))"

definition md5_init :: md5_state where
  "md5_init = (0x67452301, 0xefcdab89, 0x98badcfe, 0x10325476)"

definition md5 :: "byte list \<Rightarrow> byte list" where
  "md5 msg =
     (case fold (\<lambda>blk st. md5_block st blk) (chunks 64 (md5_pad msg)) md5_init of
        (a, b, c, d) \<Rightarrow> concat (map (le_bytes 4) [a, b, c, d]))"

text \<open>\<open>hexdigest()\<close>: two lower-case hexadecimal digits for each byte.\<close>

definition hex_digit :: "byte \<Rightarrow> codepoint" where
  "hex_digit n = (if n < 10 then 48 + unat n else 87 + unat n)"

definition hexdigest :: "byte list \<Rightarrow> pystr" where
  "hexdigest bs = concat (map (\<lambda>b. [hex_digit (drop_bit 4 b), hex_digit (b AND 15)]) bs)"

section \<open>\<open>types.py\<close>\<close>

datatype MergeStrategy = ONE_FILE_PER_INPUT | ONE_FILE_PER_BATCH

record VoiceConfig =
  voice_id :: pystr
  language_code :: pystr
  engine :: pystr

definition mk_voice :: "string \<Rightarrow> string \<Rightarrow> string \<Rightarrow> VoiceConfig" where
  "mk_voice v l e = \<lparr>voice_id = str v, language_code = str l, engine = str e\<rparr>"

text \<open>The dictionary \<open>VOICES\<close>, in the order of the source.\<close>

definition VOICES :: "(pystr \<times> VoiceConfig) list" where
  "VOICES = [
     (str ''joanna'', mk_voice ''Joanna'' ''en-US'' ''neural''),
     (str ''matthew'', mk_voice ''Matthew'' ''en-US'' ''neural''),
     (str ''marlene'', mk_voice ''Marlene'' ''de-DE'' ''neural''),
     (str ''hans'', mk_voice ''Hans'' ''de-DE'' ''neural''),
     (str ''vicki'', mk_voice ''Vicki'' ''de-DE'' ''standard''),
     (str ''daniel'', mk_voice ''Daniel'' ''de-DE'' ''standard''),
     (str ''tatyana'', mk_voice ''Tatyana'' ''ru-RU'' ''standard''),
     (str ''maxim'', mk_voice ''Maxim'' ''ru-RU'' ''standard''),
     (str ''seoyeon'', mk_voice ''Seoyeon'' ''ko-KR'' ''neural'')]"

text \<open>
  \<open>sorted(VOICES)\<close> sorts the keys of the dictionary; Python compares strings by code
  point, lexicographically, which is the order of lists of naturals.
\<close>

definition available :: pystr where
  "available = join (str '', '') (sort (map fst VOICES))"

text \<open>The message \<open>f"Unknown voice '{name}'. Available: {available}"\<close>.\<close>

definition unknown_voice_message :: "pystr \<Rightarrow> pystr" where
  "unknown_voice_message name =
     str ''Unknown voice '' @ [39] @ name @ [39] @ str ''. Available: '' @ available"

definition resolve_voice :: "(pystr \<Rightarrow> pystr) \<Rightarrow> pystr \<Rightarrow> error + VoiceConfig" where
  "resolve_voice unicode_lower name =
     (let key = lower unicode_lower name in
      case map_of VOICES key of
        None \<Rightarrow> Inl (ValueError (unknown_voice_message name))
      | Some cfg \<Rightarrow> Inr cfg)"

text \<open>
  The dataclasses. Python checks no field type at run time, and the command line builds
  requests from whatever the JSON input holds, so the type of the text is a parameter.
  The fields of a request carry the prefix \<open>req_\<close> here, and the text of a result is
  \<open>res_text\<close>.
\<close>

record 't SynthesisRequest =
  req_text :: 't
  req_voice :: VoiceConfig
  req_rate :: int

text \<open>The constructor; \<open>None\<close> for the rate is the call that leaves it out.\<close>

definition SynthesisRequest_init ::
    "'t \<Rightarrow> VoiceConfig \<Rightarrow> int option \<Rightarrow> 't SynthesisRequest" where
  "SynthesisRequest_init t v r =
     \<lparr>req_text = t, req_voice = v, req_rate = (case r of None \<Rightarrow> 75 | Some n \<Rightarrow> n)\<rparr>"

text \<open>
  A \<open>pathlib.Path\<close>, as the expression that builds it: the working directory, a path
  given by the caller, or \<open>parent / name\<close>.
\<close>

datatype path = Cwd | PathOf pystr | Div path pystr

record SynthesisResult =
  file_path :: path
  res_text :: pystr
  voice_name :: pystr

definition generate_filename :: "pystr \<Rightarrow> pystr \<Rightarrow> error + pystr" where
  "generate_filename text prefix =
     (case encode text of
        Inl e \<Rightarrow> Inl e
      | Inr bs \<Rightarrow>
          let digest = take 12 (hexdigest (md5 bs)) in
          if prefix \<noteq> [] then Inr (prefix @ digest @ str ''.mp3'')
          else Inr (digest @ str ''.mp3''))"

section \<open>\<open>cli.py\<close>\<close>

text \<open>
  What \<open>json.loads\<close> returns. A number keeps its text; an object keeps its members in
  order.
\<close>

datatype json =
    JNull
  | JBool bool
  | JNumber pystr
  | JStr pystr
  | JArr "json list"
  | JObj "(pystr \<times> json) list"

text \<open>
  \<open>p[i]\<close> for a literal index \<open>i\<close>, as Python evaluates it on each kind of value: a list
  or a string gives its \<open>i\<close>-th element or \<open>IndexError\<close>; a dictionary parsed from
  JSON has string keys only, so an integer key is a \<open>KeyError\<close>; \<open>None\<close>, booleans and
  numbers are not subscriptable.
\<close>

fun getitem :: "json \<Rightarrow> nat \<Rightarrow> error + json" where
  "getitem (JArr xs) i = (if i < length xs then Inr (xs ! i) else Inl IndexError)"
| "getitem (JStr s) i = (if i < length s then Inr (JStr [s ! i]) else Inl IndexError)"
| "getitem (JObj kvs) i = Inl KeyError"
| "getitem JNull i = Inl TypeError"
| "getitem (JBool b) i = Inl TypeError"
| "getitem (JNumber n) i = Inl TypeError"

text \<open>\<open>s.replace(old, new)\<close> for one-character \<open>old\<close> and \<open>new\<close>.\<close>

definition replace :: "codepoint \<Rightarrow> codepoint \<Rightarrow> pystr \<Rightarrow> pystr" where
  "replace old new s = map (\<lambda>c. if c = old then new else c) s"

text \<open>
  \<open>PollyClient\<close> is outside the modelled files. A command is modelled up to its call of
  the client: it returns the call it makes, or the exception raised before it.
\<close>

datatype client_call =
    Call_synthesize "pystr SynthesisRequest" path
  | Call_synthesize_batch "json SynthesisRequest list" path MergeStrategy int
  | Call_synthesize_pair pystr "pystr SynthesisRequest" pystr "pystr SynthesisRequest" path int
  | Call_synthesize_pair_batch "(json SynthesisRequest \<times> json SynthesisRequest) list"
      path MergeStrategy int

definition synthesize ::
    "(pystr \<Rightarrow> pystr) \<Rightarrow> pystr \<Rightarrow> pystr \<Rightarrow> int \<Rightarrow> path option \<Rightarrow> error + client_call" where
  "synthesize unicode_lower text voice rate output =
     (case resolve_voice unicode_lower voice of
        Inl e \<Rightarrow> Inl e
      | Inr voice_cfg \<Rightarrow>
          let request = SynthesisRequest_init text voice_cfg (Some rate);
              output' = (case output of
                           None \<Rightarrow> Div Cwd (voice @ str ''_'' @ replace 32 95 (take 20 text)
                                             @ str ''.mp3'')
                         | Some p \<Rightarrow> p)
          in Inr (Call_synthesize request output'))"

definition merge_strategy :: "bool \<Rightarrow> MergeStrategy" where
  "merge_strategy merge = (if merge then ONE_FILE_PER_BATCH else ONE_FILE_PER_INPUT)"

definition out_dir :: "path option \<Rightarrow> path" where
  "out_dir output_dir = (case output_dir of Some d \<Rightarrow> d | None \<Rightarrow> Cwd)"

text \<open>
  The batch commands evaluate \<open>json.loads(input_file.read_text(encoding="utf-8"))\<close> after
  the voices are resolved. The file system and the parser are outside the repository:
  the commands take the outcome \<open>loaded\<close> of that expression, the parsed value or the
  exception that reading or parsing raised (such as \<open>JSONDecodeError\<close> for content that
  is no JSON).
\<close>

definition synthesize_batch ::
    "(pystr \<Rightarrow> pystr) \<Rightarrow> pystr \<Rightarrow> int \<Rightarrow> path option \<Rightarrow> bool \<Rightarrow> int
       \<Rightarrow> error + json \<Rightarrow> error + client_call" where
  "synthesize_batch unicode_lower voice rate output_dir merge pause loaded =
     (case resolve_voice unicode_lower voice of
        Inl e \<Rightarrow> Inl e
      | Inr voice_cfg \<Rightarrow>
     (case loaded of
        Inl e \<Rightarrow> Inl e
      | Inr raw \<Rightarrow>
          (case raw of
             JArr texts \<Rightarrow>
               Inr (Call_synthesize_batch
                      (map (\<lambda>t. SynthesisRequest_init t voice_cfg (Some rate)) texts)
                      (out_dir output_dir) (merge_strategy merge) pause)
           | _ \<Rightarrow> Inl (BadParameter (str ''INPUT_FILE must contain a JSON array of strings.'')))))"

definition synthesize_pair ::
    "(pystr \<Rightarrow> pystr) \<Rightarrow> pystr \<Rightarrow> pystr \<Rightarrow> pystr \<Rightarrow> pystr \<Rightarrow> int \<Rightarrow> int \<Rightarrow> path option
       \<Rightarrow> error + client_call" where
  "synthesize_pair unicode_lower text1 text2 voice1 voice2 rate pause output =
     (case resolve_voice unicode_lower voice1 of
        Inl e \<Rightarrow> Inl e
      | Inr v1 \<Rightarrow>
     (case resolve_voice unicode_lower voice2 of
        Inl e \<Rightarrow> Inl e
      | Inr v2 \<Rightarrow>
          let req1 = SynthesisRequest_init text1 v1 (Some rate);
              req2 = SynthesisRequest_init text2 v2 (Some rate);
              output' = (case output of
                           None \<Rightarrow> Div Cwd (str ''pair_'' @ take 10 text1 @ str ''_''
                                             @ take 10 text2 @ str ''.mp3'')
                         | Some p \<Rightarrow> p)
          in Inr (Call_synthesize_pair text1 req1 text2 req2 output' pause)))"

text \<open>
  The list comprehension of \<open>synthesize_pair_batch\<close>: for each entry \<open>p\<close>, \<open>p[0]\<close> then
  \<open>p[1]\<close>; the first exception ends it.
\<close>

fun make_pairs ::
    "VoiceConfig \<Rightarrow> VoiceConfig \<Rightarrow> int \<Rightarrow> json list
       \<Rightarrow> error + (json SynthesisRequest \<times> json SynthesisRequest) list" where
  "make_pairs v1 v2 rate [] = Inr []"
| "make_pairs v1 v2 rate (p # ps) =
     (case getitem p 0 of
        Inl e \<Rightarrow> Inl e
      | Inr a \<Rightarrow>
     (case getitem p 1 of
        Inl e \<Rightarrow> Inl e
      | Inr b \<Rightarrow>
     (case make_pairs v1 v2 rate ps of
        Inl e \<Rightarrow> Inl e
      | Inr rest \<Rightarrow>
          Inr ((SynthesisRequest_init a v1 (Some rate), SynthesisRequest_init b v2 (Some rate))
               # rest))))"

definition synthesize_pair_batch ::
    "(pystr \<Rightarrow> pystr) \<Rightarrow> pystr \<Rightarrow> pystr \<Rightarrow> int \<Rightarrow> int \<Rightarrow> path option \<Rightarrow> bool
       \<Rightarrow> error + json \<Rightarrow> error + client_call" where
  "synthesize_pair_batch unicode_lower voice1 voice2 rate pause output_dir merge loaded =
     (case resolve_voice unicode_lower voice1 of
        Inl e \<Rightarrow> Inl e
      | Inr v1 \<Rightarrow>
     (case resolve_voice unicode_lower voice2 of
        Inl e \<Rightarrow> Inl e
      | Inr v2 \<Rightarrow>
     (case loaded of
        Inl e \<Rightarrow> Inl e
      | Inr raw \<Rightarrow>
          (case raw of
             JArr raw_pairs \<Rightarrow>
               (case make_pairs v1 v2 rate raw_pairs of
                  Inl e \<Rightarrow> Inl e
                | Inr pairs \<Rightarrow>
                    Inr (Call_synthesize_pair_batch pairs (out_dir output_dir)
                           (merge_strategy merge) pause))
           | _ \<Rightarrow>
               Inl (BadParameter
                      (str ''INPUT_FILE must contain a JSON array of [text1, text2] pairs.''))))))"

text \<open>The output path a call hands to the client.\<close>

fun call_output :: "client_call \<Rightarrow> path" where
  "call_output (Call_synthesize r p) = p"
| "call_output (Call_synthesize_batch rs p m n) = p"
| "call_output (Call_synthesize_pair t1 r1 t2 r2 p n) = p"
| "call_output (Call_synthesize_pair_batch ps p m n) = p"

section \<open>Frozen dataclasses\<close>

text \<open>
  What the decorator \<open>@dataclass(frozen=...)\<close> is told about a class: its fields, and whether
  it is frozen. \<open>VoiceConfig\<close>, \<open>SynthesisRequest\<close> and \<open>SynthesisResult\<close> are declared with
  \<open>frozen=True\<close> and without slots, so an instance keeps its fields in its attribute
  dictionary.
\<close>

record dataclass =
  class_name :: pystr
  frozen :: bool
  field_names :: "pystr list"

definition VoiceConfig_class :: dataclass where
  "VoiceConfig_class =
     \<lparr>class_name = str ''VoiceConfig'', frozen = True,
      field_names = [str ''voice_id'', str ''language_code'', str ''engine'']\<rparr>"

definition SynthesisRequest_class :: dataclass where
  "SynthesisRequest_class =
     \<lparr>class_name = str ''SynthesisRequest'', frozen = True,
      field_names = [str ''text'', str ''voice'', str ''rate'']\<rparr>"

definition SynthesisResult_class :: dataclass where
  "SynthesisResult_class =
     \<lparr>class_name = str ''SynthesisResult'', frozen = True,
      field_names = [str ''file_path'', str ''text'', str ''voice_name'']\<rparr>"

datatype pyval = VStr pystr | VInt int | VPath path | VVoice VoiceConfig

text \<open>An instance: its class and its attribute dictionary.\<close>

type_synonym pyobject = "dataclass \<times> (pystr \<Rightarrow> pyval option)"

text \<open>The generated \<open>__init__\<close>: one attribute for each field.\<close>

definition VoiceConfig_new :: "VoiceConfig \<Rightarrow> pyobject" where
  "VoiceConfig_new c =
     (VoiceConfig_class,
      [str ''voice_id'' \<mapsto> VStr (voice_id c), str ''language_code'' \<mapsto> VStr (language_code c),
       str ''engine'' \<mapsto> VStr (engine c)])"

definition SynthesisRequest_new :: "pystr SynthesisRequest \<Rightarrow> pyobject" where
  "SynthesisRequest_new r =
     (SynthesisRequest_class,
      [str ''text'' \<mapsto> VStr (req_text r), str ''voice'' \<mapsto> VVoice (req_voice r),
       str ''rate'' \<mapsto> VInt (req_rate r)])"

definition SynthesisResult_new :: "SynthesisResult \<Rightarrow> pyobject" where
  "SynthesisResult_new r =
     (SynthesisResult_class,
      [str ''file_path'' \<mapsto> VPath (file_path r), str ''text'' \<mapsto> VStr (res_text r),
       str ''voice_name'' \<mapsto> VStr (voice_name r)])"

text \<open>
  \<open>object.__setattr__(obj, name, value)\<close> and \<open>object.__delattr__(obj, name)\<close>, the methods
  of the base class: the first stores the value in the attribute dictionary, the second
  removes an attribute that is there.
\<close>

definition object_setattr :: "pyobject \<Rightarrow> pystr \<Rightarrow> pyval \<Rightarrow> pyobject" where
  "object_setattr obj name v = (case obj of (cls, d) \<Rightarrow> (cls, d(name \<mapsto> v)))"

definition object_delattr :: "pyobject \<Rightarrow> pystr \<Rightarrow> error + pyobject" where
  "object_delattr obj name =
     (case obj of (cls, d) \<Rightarrow>
        (case d name of
           None \<Rightarrow> Inl (AttributeError name)
         | Some v \<Rightarrow> Inr (cls, d(name := None))))"

text \<open>
  \<open>obj.name = value\<close> and \<open>del obj.name\<close> on an instance of a dataclass. For a frozen class
  the decorator generates \<open>__setattr__\<close> and \<open>__delattr__\<close> that raise
  \<open>FrozenInstanceError\<close> (a subclass of \<open>AttributeError\<close>) on every instance of the class
  itself, whatever the name; a class that is not frozen inherits the methods of the base
  class.
\<close>

definition setattr :: "pyobject \<Rightarrow> pystr \<Rightarrow> pyval \<Rightarrow> error + pyobject" where
  "setattr obj name v =
     (if frozen (fst obj) then Inl (FrozenInstanceError Assigning name)
      else Inr (object_setattr obj name v))"

definition delattr :: "pyobject \<Rightarrow> pystr \<Rightarrow> error + pyobject" where
  "delattr obj name =
     (if frozen (fst obj) then Inl (FrozenInstanceError Deleting name)
      else object_delattr obj name)"

text \<open>
  A sequence of such statements, each in its own \<open>try\<close>: the object after them, and what
  each one raised.
\<close>

datatype statement = SetAttr pystr pyval | DelAttr pystr

fun exec :: "pyobject \<Rightarrow> statement \<Rightarrow> error + pyobject" where
  "exec obj (SetAttr name v) = setattr obj name v"
| "exec obj (DelAttr name) = delattr obj name"

fun run :: "pyobject \<Rightarrow> statement list \<Rightarrow> pyobject \<times> error option list" where
  "run obj [] = (obj, [])"
| "run obj (s # ss) =
     (case exec obj s of
        Inl e \<Rightarrow> (case run obj ss of (obj', es) \<Rightarrow> (obj', Some e # es))
      | Inr obj1 \<Rightarrow> (case run obj1 ss of (obj', es) \<Rightarrow> (obj', None # es)))"

section \<open>The orchestrator and the assembler\<close>

text \<open>
  Modelled from the spec: the audio codec library of section 6, which is outside the
  repository. \<open>codec_decode\<close> gives the samples of an encoded stream, or nothing when the
  stream is no valid audio; \<open>codec_silence\<close> gives the samples of a silence of so many
  milliseconds; \<open>codec_encode\<close> encodes samples.
\<close>

record ('enc, 'smp) codec =
  codec_decode :: "'enc \<Rightarrow> 'smp list option"
  codec_silence :: "int \<Rightarrow> 'smp list"
  codec_encode :: "'smp list \<Rightarrow> 'enc"

text \<open>
  Modelled from the spec: \<open>AudioAssembler.assemble\<close> (section 4.3), whose code
  (\<open>core.py\<close>) is not among the sources. Each stream is decoded in input order, and
  \<open>AudioDecodeError\<close> is raised at the first that is not valid. The accumulator starts
  from the first segment; each later segment is appended after a silence. The result
  is encoded again. The spec does not say what no segment at all gives; the model
  raises \<open>EmptyBatchError\<close>.
\<close>

fun decode_all :: "('enc \<Rightarrow> 'smp list option) \<Rightarrow> 'enc list \<Rightarrow> error + 'smp list list" where
  "decode_all dec [] = Inr []"
| "decode_all dec (s # ss) =
     (case dec s of
        None \<Rightarrow> Inl AudioDecodeError
      | Some d \<Rightarrow> (case decode_all dec ss of Inl e \<Rightarrow> Inl e | Inr ds \<Rightarrow> Inr (d # ds)))"

definition assemble :: "('enc, 'smp) codec \<Rightarrow> 'enc list \<Rightarrow> int \<Rightarrow> error + 'enc" where
  "assemble codec segments silence_ms =
     (case decode_all (codec_decode codec) segments of
        Inl e \<Rightarrow> Inl e
      | Inr [] \<Rightarrow> Inl EmptyBatchError
      | Inr (first # rest) \<Rightarrow>
          Inr (codec_encode codec
                 (foldl (\<lambda>acc seg. acc @ codec_silence codec silence_ms @ seg) first rest)))"

text \<open>
  Modelled from the spec: the backend call of section 6 and \<open>synthesize_one\<close> of section
  4.4. The backend answers a request with encoded audio or with the provider's message,
  which is raised as \<open>SynthesisBackendError\<close>. What a call does to the file system is
  returned with its outcome, in order.
\<close>

datatype 'enc effect = Mkdir path | Write path 'enc

fun synthesize_all ::
    "(pystr SynthesisRequest \<Rightarrow> pystr + 'enc) \<Rightarrow> pystr SynthesisRequest list
       \<Rightarrow> error + 'enc list" where
  "synthesize_all backend [] = Inr []"
| "synthesize_all backend (r # rs) =
     (case backend r of
        Inl msg \<Rightarrow> Inl (SynthesisBackendError msg)
      | Inr audio \<Rightarrow>
          (case synthesize_all backend rs of Inl e \<Rightarrow> Inl e | Inr rest \<Rightarrow> Inr (audio # rest)))"

text \<open>The voices of a batch, each once, in the order of first use, joined by \<open>+\<close>.\<close>

definition voice_label :: "pystr SynthesisRequest list \<Rightarrow> pystr" where
  "voice_label requests =
     join (str ''+'') (rev (remdups (rev (map (\<lambda>r. voice_id (req_voice r)) requests))))"

text \<open>
  Modelled from the spec: \<open>synthesize_batch\<close> of the orchestrator (section 4.4), whose
  code (\<open>core.py\<close>) is not among the sources. The output directory is created first.
  With one file for each input, every request is synthesized and written in turn under
  the name \<open>generate_filename\<close> gives its text, and the first failure ends the batch. With
  one file for the batch, every request is synthesized in input order, the streams are
  assembled with the pause between them, and the result is written under the name
  \<open>generate_filename\<close> gives the texts joined by \<open>" | "\<close>.
\<close>

fun synthesize_each ::
    "(pystr SynthesisRequest \<Rightarrow> pystr + 'enc) \<Rightarrow> path \<Rightarrow> pystr SynthesisRequest list
       \<Rightarrow> 'enc effect list \<times> (error + SynthesisResult list)" where
  "synthesize_each backend dir [] = ([], Inr [])"
| "synthesize_each backend dir (r # rs) =
     (case generate_filename (req_text r) [] of
        Inl e \<Rightarrow> ([], Inl e)
      | Inr name \<Rightarrow>
     (case backend r of
        Inl msg \<Rightarrow> ([], Inl (SynthesisBackendError msg))
      | Inr audio \<Rightarrow>
     (case synthesize_each backend dir rs of (effects, outcome) \<Rightarrow>
        (Write (Div dir name) audio # effects,
         (case outcome of
            Inl e \<Rightarrow> Inl e
          | Inr results \<Rightarrow>
              Inr (\<lparr>file_path = Div dir name, res_text = req_text r,
                    voice_name = voice_id (req_voice r)\<rparr> # results))))))"

definition PollyClient_synthesize_batch ::
    "(pystr SynthesisRequest \<Rightarrow> pystr + 'enc) \<Rightarrow> ('enc, 'smp) codec
       \<Rightarrow> pystr SynthesisRequest list \<Rightarrow> path \<Rightarrow> MergeStrategy \<Rightarrow> int
       \<Rightarrow> 'enc effect list \<times> (error + SynthesisResult list)" where
  "PollyClient_synthesize_batch backend codec requests output_dir strategy pause_ms =
     (case strategy of
        ONE_FILE_PER_INPUT \<Rightarrow>
          (case synthesize_each backend output_dir requests of
             (effects, outcome) \<Rightarrow> (Mkdir output_dir # effects, outcome))
      | ONE_FILE_PER_BATCH \<Rightarrow>
          (case synthesize_all backend requests of
             Inl e \<Rightarrow> ([Mkdir output_dir], Inl e)
           | Inr streams \<Rightarrow>
          (case assemble codec streams pause_ms of
             Inl e \<Rightarrow> ([Mkdir output_dir], Inl e)
           | Inr merged \<Rightarrow>
          (let source_text = join (str '' | '') (map req_text requests) in
           case generate_filename source_text [] of
             Inl e \<Rightarrow> ([Mkdir output_dir], Inl e)
           | Inr name \<Rightarrow>
               ([Mkdir output_dir, Write (Div output_dir name) merged],
                Inr [\<lparr>file_path = Div output_dir name, res_text = source_text,
                      voice_name = voice_label requests\<rparr>])))))"

section \<open>Notions used in the properties\<close>

text \<open>
  A well-formed string holds Unicode scalar values only: code points below \<open>0x110000\<close>
  that are not surrogates.
\<close>

definition well_formed :: "pystr \<Rightarrow> bool" where
  "well_formed s = list_all (\<lambda>c. c < 0xD800 \<or> (0xDFFF < c \<and> c < 0x110000)) s"

definition is_hex_char :: "codepoint \<Rightarrow> bool" where
  "is_hex_char c = ((48 \<le> c \<and> c \<le> 57) \<or> (97 \<le> c \<and> c \<le> 102))"

text \<open>The digest that \<open>generate_filename\<close> puts in the name; it depends on the text only.\<close>

definition text_digest :: "pystr \<Rightarrow> error + pystr" where
  "text_digest t = map_sum id (\<lambda>bs. take 12 (hexdigest (md5 bs))) (encode t)"

text \<open>
  Two ASCII strings are case variants when they have the same length and agree at
  each position up to the case of a letter.
\<close>

definition ascii_upper :: "codepoint \<Rightarrow> codepoint" where
  "ascii_upper c = (if 97 \<le> c \<and> c \<le> 122 then c - 32 else c)"

definition case_variant :: "pystr \<Rightarrow> pystr \<Rightarrow> bool" where
  "case_variant s s' =
     (is_ascii s \<and> is_ascii s' \<and> list_all2 (\<lambda>a b. ascii_lower a = ascii_lower b) s s')"

text \<open>The configuration a call of \<open>resolve_voice\<close> returns, if it returns one.\<close>

definition returned :: "error + 'a \<Rightarrow> 'a option" where
  "returned r = (case r of Inl e \<Rightarrow> None | Inr x \<Rightarrow> Some x)"

text \<open>A statement that raised \<open>FrozenInstanceError\<close>.\<close>

definition raised_frozen :: "error option \<Rightarrow> bool" where
  "raised_frozen r = (case r of Some (FrozenInstanceError a name) \<Rightarrow> True | _ \<Rightarrow> False)"

text \<open>A JSON array; an entry of a pair batch that has a first and a second element.\<close>

definition is_array :: "json \<Rightarrow> bool" where
  "is_array raw = (case raw of JArr xs \<Rightarrow> True | _ \<Rightarrow> False)"

definition has_two :: "json \<Rightarrow> bool" where
  "has_two p = (case p of JArr xs \<Rightarrow> 2 \<le> length xs | JStr s \<Rightarrow> 2 \<le> length s | _ \<Rightarrow> False)"

text \<open>The first two elements of an entry that has them.\<close>

definition first_two :: "json \<Rightarrow> json \<times> json" where
  "first_two p =
     (case p of
        JArr xs \<Rightarrow> (xs ! 0, xs ! 1)
      | JStr s \<Rightarrow> (JStr [s ! 0], JStr [s ! 1])
      | _ \<Rightarrow> (JNull, JNull))"

text \<open>
  Unicode's case mapping of U+017F, the long s: it is a lower-case letter and its upper
  case is \<open>S\<close>. On a string of ASCII characters and long s, \<open>str.lower()\<close> and
  \<open>str.upper()\<close> are these two functions.
\<close>

definition lower_long_s :: "pystr \<Rightarrow> pystr" where
  "lower_long_s s = map (\<lambda>c. if c = 0x17F then 0x17F else ascii_lower c) s"

definition upper_long_s :: "pystr \<Rightarrow> pystr" where
  "upper_long_s s = map (\<lambda>c. if c = 0x17F then 83 else ascii_upper c) s"

section \<open>Encoding and the digest\<close>

lemma encode_codepoint_ok:
  "c < 0xD800 \<or> (0xDFFF < c \<and> c < 0x110000) \<Longrightarrow> \<exists>bs. encode_codepoint c = Inr bs"
  by (auto simp: encode_codepoint_def)

lemma encode_codepoint_bad:
  "encode_codepoint c = Inr bs \<Longrightarrow> c < 0xD800 \<or> (0xDFFF < c \<and> c < 0x110000)"
  by (auto simp: encode_codepoint_def split: if_splits)

lemma encode_well_formed: "well_formed s \<Longrightarrow> \<exists>bs. encode s = Inr bs"
proof (induction s)
  case Nil
  then show ?case by simp
next
  case (Cons c cs)
  from Cons.prems have c: "c < 0xD800 \<or> (0xDFFF < c \<and> c < 0x110000)" and cs: "well_formed cs"
    by (simp_all add: well_formed_def)
  from encode_codepoint_ok [OF c] obtain b where "encode_codepoint c = Inr b" by blast
  moreover from Cons.IH [OF cs] obtain bs where "encode cs = Inr bs" by blast
  ultimately show ?case by simp
qed

lemma encode_Inr_well_formed: "encode s = Inr bs \<Longrightarrow> well_formed s"
proof (induction s arbitrary: bs)
  case Nil
  then show ?case by (simp add: well_formed_def)
next
  case (Cons c cs)
  then show ?case
    by (auto simp: well_formed_def split: sum.splits dest: encode_codepoint_bad)
qed

lemma encode_error: "encode s = Inl e \<Longrightarrow> e = UnicodeEncodeError"
  by (induction s arbitrary: e) (auto simp: encode_codepoint_def split: sum.splits if_splits)

lemma length_le_bytes: "length (le_bytes k w) = k"
  by (simp add: le_bytes_def)

lemma length_md5: "length (md5 msg) = 16"
  by (simp add: md5_def length_le_bytes split: prod.splits)

lemma length_hexdigest: "length (hexdigest bs) = 2 * length bs"
  by (induction bs) (simp_all add: hexdigest_def)

lemma hex_digit_is_hex:
  fixes n :: byte
  assumes "n < 16"
  shows "is_hex_char (hex_digit n)"
proof -
  from assms have "unat n < 16" by (simp add: word_less_nat_alt)
  moreover have "n < 10 \<longleftrightarrow> unat n < 10" by (simp add: word_less_nat_alt)
  ultimately show ?thesis by (auto simp: hex_digit_def is_hex_char_def)
qed

lemma high_nibble: "drop_bit 4 (b :: byte) < 16"
proof -
  have "unat b < 2 ^ LENGTH(8)" by (rule unsigned_less)
  then have "unat b < 256" by simp
  moreover have "unat (drop_bit 4 b) = drop_bit 4 (unat b)" by (rule unat_drop_bit_eq)
  moreover have "drop_bit 4 (unat b) = unat b div 16" by (simp only: drop_bit_eq_div) simp
  ultimately have "unat (drop_bit 4 b) < 16" by simp
  then show ?thesis by (simp add: word_less_nat_alt)
qed

lemma low_nibble: "(b :: byte) AND 15 < 16"
proof -
  have "b AND 15 \<le> 15" by (rule word_and_le1)
  then show ?thesis by (simp add: word_le_nat_alt word_less_nat_alt)
qed

lemma hexdigest_is_hex: "list_all is_hex_char (hexdigest bs)"
  by (induction bs) (simp_all add: hexdigest_def hex_digit_is_hex high_nibble low_nibble)

lemma length_digest12: "length (take 12 (hexdigest (md5 bs))) = 12"
  by (simp add: length_hexdigest length_md5)

lemma length_digest12_min: "min (length (hexdigest (md5 bs))) 12 = 12"
  by (simp add: length_hexdigest length_md5)

lemma digest12_is_hex: "list_all is_hex_char (take 12 (hexdigest (md5 bs)))"
  using hexdigest_is_hex [of "md5 bs"] by (simp add: list_all_iff) (meson in_set_takeD)

lemma generate_filename_text_digest:
  "generate_filename t p = map_sum id (\<lambda>d. p @ d @ str ''.mp3'') (text_digest t)"
  by (cases "encode t") (simp_all add: generate_filename_def text_digest_def Let_def)

lemma text_digest_well_formed:
  assumes "well_formed t"
  shows "\<exists>d. text_digest t = Inr d \<and> length d = 12 \<and> list_all is_hex_char d"
proof -
  from encode_well_formed [OF assms] obtain bs where "encode t = Inr bs" by blast
  then show ?thesis
    by (simp add: text_digest_def length_digest12_min digest12_is_hex)
qed

section \<open>Reference values\<close>

text \<open>
  The model of \<open>hashlib.md5\<close> on the test suite of RFC 1321 (the empty message, one block,
  two blocks), and the UTF-8 encoder on code points of each length.
\<close>

lemma md5_empty: "hexdigest (md5 []) = str ''d41d8cd98f00b204e9800998ecf8427e''"
  by code_simp

lemma md5_abc:
  "map_sum id (\<lambda>bs. hexdigest (md5 bs)) (encode (str ''abc''))
   = Inr (str ''900150983cd24fb0d6963f7d28e17f72'')"
  by code_simp

lemma md5_two_blocks:
  "map_sum id (\<lambda>bs. hexdigest (md5 bs))
     (encode (str ''12345678901234567890123456789012345678901234567890123456789012345678901234567890''))
   = Inr (str ''57edf4a22be3c955ac49da2e2107b67a'')"
  by code_simp

lemma encode_two_bytes:
  "encode [71, 114, 0xF6, 0xDF, 101] = Inr [0x47, 0x72, 0xC3, 0xB6, 0xC3, 0x9F, 0x65]"
  by (simp add: encode_codepoint_def utf8_cont_def)

lemma encode_three_bytes: "encode [0x20AC] = Inr [0xE2, 0x82, 0xAC]"
  by (simp add: encode_codepoint_def utf8_cont_def)

lemma encode_four_bytes: "encode [0x1F600] = Inr [0xF0, 0x9F, 0x98, 0x80]"
  by (simp add: encode_codepoint_def utf8_cont_def)

lemma text_digest_non_ascii:
  "text_digest [71, 114, 0xF6, 0xDF, 101] = Inr (str ''d248453369cf'')"
  by (simp add: text_digest_def encode_two_bytes) code_simp

section \<open>\<open>generate_filename\<close>\<close>

text \<open>
  C1, as stated for every text string, fails: a Python string can hold a lone surrogate
  (\<open>json.loads\<close> delivers one for an escaped U+D800), which \<open>str.encode()\<close> refuses, so
  \<open>generate_filename\<close> raises and returns no name.
\<close>

theorem generate_filename_lone_surrogate:
  "generate_filename [0xD800] [] = Inl UnicodeEncodeError"
  by (simp add: generate_filename_def encode_codepoint_def)

text \<open>
  C1, amended. For every well-formed text \<open>t\<close> and every prefix \<open>p\<close>,
  \<open>generate_filename t p\<close> returns \<open>p\<close>, then a digest of \<open>t\<close> of exactly 12 lower-case
  hexadecimal characters, then \<open>.mp3\<close>. The digest is \<open>text_digest t\<close>, which does not see
  the prefix, so equal texts and prefixes give equal names.
\<close>

theorem generate_filename_shape:
  assumes "well_formed t"
  shows "\<exists>d. text_digest t = Inr d \<and> length d = 12 \<and> list_all is_hex_char d
             \<and> generate_filename t p = Inr (p @ d @ str ''.mp3'')"
proof -
  from text_digest_well_formed [OF assms] obtain d
    where d: "text_digest t = Inr d" "length d = 12" "list_all is_hex_char d" by blast
  then show ?thesis by (simp add: generate_filename_text_digest)
qed

theorem generate_filename_shape_witness:
  "well_formed (str ''test'') \<and>
   (\<exists>d. text_digest (str ''test'') = Inr d \<and> length d = 12 \<and> list_all is_hex_char d
        \<and> generate_filename (str ''test'') (str ''pair_'') = Inr (str ''pair_'' @ d @ str ''.mp3''))"
proof -
  have w: "well_formed (str ''test'')" by (simp add: well_formed_def str_def)
  from generate_filename_shape [OF w, of "str ''pair_''"] w show ?thesis by blast
qed

text \<open>
  C8. On every well-formed string, the empty string included, \<open>generate_filename\<close>
  returns a filename and raises nothing.
\<close>

theorem generate_filename_total:
  assumes "well_formed t"
  shows "\<exists>f. generate_filename t p = Inr f"
proof -
  from encode_well_formed [OF assms] obtain bs where "encode t = Inr bs" by blast
  then show ?thesis by (simp add: generate_filename_def Let_def)
qed

theorem generate_filename_total_witness:
  "well_formed [] \<and> (\<exists>f. generate_filename [] [] = Inr f)"
proof -
  have w: "well_formed []" by (simp add: well_formed_def)
  from generate_filename_total [OF w, of "[]"] w show ?thesis by blast
qed

text \<open>
  Outside the well-formed strings the call raises: a string with a lone surrogate has
  no UTF-8 encoding.
\<close>

lemma generate_filename_raises:
  "generate_filename t p = Inl UnicodeEncodeError \<longleftrightarrow> \<not> well_formed t"
proof (cases "encode t")
  case (Inl e)
  then have "\<not> well_formed t" using encode_well_formed [of t] by auto
  moreover from Inl have "e = UnicodeEncodeError" by (rule encode_error)
  ultimately show ?thesis using Inl by (simp add: generate_filename_def)
next
  case (Inr bs)
  then have "well_formed t" by (rule encode_Inr_well_formed)
  then show ?thesis using Inr by (simp add: generate_filename_def Let_def)
qed

lemma text_digest_hello: "text_digest (str ''hello'') = Inr (str ''5d41402abc4b'')"
  by code_simp

lemma text_digest_world: "text_digest (str ''world'') = Inr (str ''7d793037a076'')"
  by code_simp

lemma text_digest_collision_1: "text_digest (str ''text24141118'') = Inr (str ''e0d908d8dba9'')"
  by code_simp

lemma text_digest_collision_2: "text_digest (str ''text28558427'') = Inr (str ''e0d908d8dba9'')"
  by code_simp

text \<open>
  C7, as stated, fails: the name keeps 48 bits of the MD5 digest, and two distinct texts
  can agree on them. These two do.
\<close>

theorem generate_filename_collision:
  "str ''text24141118'' \<noteq> str ''text28558427'' \<and>
   generate_filename (str ''text24141118'') [] = generate_filename (str ''text28558427'') []"
  by (simp add: generate_filename_text_digest text_digest_collision_1 text_digest_collision_2)
     (simp add: str_def)

text \<open>
  C7, amended. For well-formed texts and one prefix, the filenames differ exactly when the
  12-character digests of the texts differ.
\<close>

theorem generate_filename_distinct:
  assumes "well_formed t1" and "well_formed t2"
  shows "generate_filename t1 p \<noteq> generate_filename t2 p \<longleftrightarrow> text_digest t1 \<noteq> text_digest t2"
proof -
  from text_digest_well_formed [OF assms(1)] obtain d1 where d1: "text_digest t1 = Inr d1" by blast
  from text_digest_well_formed [OF assms(2)] obtain d2 where d2: "text_digest t2 = Inr d2" by blast
  show ?thesis by (simp add: generate_filename_text_digest d1 d2)
qed

theorem generate_filename_distinct_witness:
  "well_formed (str ''hello'') \<and> well_formed (str ''world'') \<and>
   text_digest (str ''hello'') \<noteq> text_digest (str ''world'') \<and>
   generate_filename (str ''hello'') [] \<noteq> generate_filename (str ''world'') []"
proof -
  have h: "well_formed (str ''hello'')" by (simp add: well_formed_def str_def)
  have w: "well_formed (str ''world'')" by (simp add: well_formed_def str_def)
  have d: "text_digest (str ''hello'') \<noteq> text_digest (str ''world'')"
    by (simp add: text_digest_hello text_digest_world) (simp add: str_def)
  from generate_filename_distinct [OF h w, of "[]"] h w d show ?thesis by blast
qed

section \<open>\<open>resolve_voice\<close>\<close>

lemma lower_ascii: "is_ascii s \<Longrightarrow> lower ul s = map ascii_lower s"
  by (simp add: lower_def)

lemma map_ascii_lower_variant:
  "list_all2 (\<lambda>a b. ascii_lower a = ascii_lower b) s s' \<Longrightarrow> map ascii_lower s = map ascii_lower s'"
  by (induction s s' rule: list_all2_induct) simp_all

lemma lower_case_variant: "case_variant s s' \<Longrightarrow> lower ul s = lower ul s'"
  by (simp add: case_variant_def lower_ascii map_ascii_lower_variant)

lemma resolve_voice_lower_eq:
  "lower ul s = lower ul s' \<Longrightarrow> returned (resolve_voice ul s) = returned (resolve_voice ul s')"
  by (simp add: resolve_voice_def returned_def Let_def split: option.splits)

lemma ascii_lower_upper: "ascii_lower (ascii_upper c) = ascii_lower c"
  by (auto simp: ascii_lower_def ascii_upper_def)

lemma ascii_upper_less: "c < 128 \<Longrightarrow> ascii_upper c < 128"
  by (auto simp: ascii_upper_def)

lemma case_variant_upper: "is_ascii s \<Longrightarrow> case_variant s (map ascii_upper s)"
  by (induction s) (simp_all add: case_variant_def is_ascii_def ascii_lower_upper ascii_upper_less)

lemma resolve_voice_upper:
  "is_ascii s \<Longrightarrow> returned (resolve_voice ul (map ascii_upper s)) = returned (resolve_voice ul s)"
  by (rule resolve_voice_lower_eq [OF lower_case_variant [OF case_variant_upper, symmetric]])

text \<open>
  C4, as stated for every name, fails outside ASCII: the upper-casing of \<open>han\<close> followed
  by a long s (U+017F) is \<open>HANS\<close>, which resolves to Hans, while the name itself is
  left as it is by \<open>str.lower()\<close>, is no key of \<open>VOICES\<close> and raises.
\<close>

theorem resolve_voice_long_s:
  "upper_long_s [104, 97, 110, 0x17F] = str ''HANS''
   \<and> lower_long_s [104, 97, 110, 0x17F] = [104, 97, 110, 0x17F]
   \<and> returned (resolve_voice lower_long_s [104, 97, 110, 0x17F]) = None
   \<and> returned (resolve_voice lower_long_s (str ''HANS''))
       = Some (mk_voice ''Hans'' ''de-DE'' ''neural'')"
  by (simp add: upper_long_s_def lower_long_s_def ascii_upper_def ascii_lower_def
        resolve_voice_def lower_def is_ascii_def VOICES_def returned_def str_def)

text \<open>
  C4, amended. Two ASCII names that are case variants of each other (the same length,
  differing in the case of letters only, as a name and its upper-casing are) resolve
  alike: \<open>resolve_voice\<close> returns the same \<open>VoiceConfig\<close> for both, or raises for both.
\<close>

theorem resolve_voice_case_insensitive:
  assumes "case_variant s s'"
  shows "returned (resolve_voice ul s') = returned (resolve_voice ul s)"
  by (rule resolve_voice_lower_eq [OF lower_case_variant [OF assms, symmetric]])

lemma resolve_voice_hans:
  "resolve_voice ul (str ''hans'') = Inr (mk_voice ''Hans'' ''de-DE'' ''neural'')"
  by (simp add: resolve_voice_def lower_def is_ascii_def ascii_lower_def VOICES_def str_def)

lemma resolve_voice_joanna:
  "resolve_voice ul (str ''joanna'') = Inr (mk_voice ''Joanna'' ''en-US'' ''neural'')"
  by (simp add: resolve_voice_def lower_def is_ascii_def ascii_lower_def VOICES_def str_def)

theorem resolve_voice_case_insensitive_witness:
  "case_variant (str ''hans'') (str ''HANS'') \<and>
   (\<forall>ul. returned (resolve_voice ul (str ''HANS'')) = returned (resolve_voice ul (str ''hans'')) \<and>
         returned (resolve_voice ul (str ''HANS'')) = Some (mk_voice ''Hans'' ''de-DE'' ''neural''))"
proof -
  have cv: "case_variant (str ''hans'') (str ''HANS'')"
    by (simp add: case_variant_def is_ascii_def ascii_lower_def str_def)
  have "returned (resolve_voice ul (str ''HANS'')) = returned (resolve_voice ul (str ''hans''))" for ul
    by (rule resolve_voice_case_insensitive [OF cv])
  then show ?thesis using cv by (simp add: resolve_voice_hans returned_def)
qed

lemma available_names:
  "sort (map fst VOICES) = map str [''daniel'', ''hans'', ''joanna'', ''marlene'', ''matthew'',
     ''maxim'', ''seoyeon'', ''tatyana'', ''vicki'']"
  by (simp add: VOICES_def str_def)

lemma available_eq:
  "available = str ''daniel, hans, joanna, marlene, matthew, maxim, seoyeon, tatyana, vicki''"
  by (simp add: available_def VOICES_def str_def)

lemma map_of_None_iff: "map_of xs k = None \<longleftrightarrow> k \<notin> set (map fst xs)"
  by (simp add: map_of_eq_None_iff)

text \<open>
  C5. When the lower-cased name is no key of \<open>VOICES\<close>, \<open>resolve_voice\<close> raises
  \<open>ValueError\<close> with a message that quotes the name as it was given and lists every
  voice name in alphabetical order; when it is a key, \<open>resolve_voice\<close> returns.
\<close>

theorem resolve_voice_unknown:
  "(lower ul name \<notin> set (map fst VOICES) \<longrightarrow>
      resolve_voice ul name =
        Inl (ValueError (str ''Unknown voice '' @ [39] @ name @ [39] @ str ''. Available: ''
               @ str ''daniel, hans, joanna, marlene, matthew, maxim, seoyeon, tatyana, vicki'')))
   \<and> (lower ul name \<in> set (map fst VOICES) \<longrightarrow> (\<exists>cfg. resolve_voice ul name = Inr cfg))"
proof (intro conjI impI)
  assume "lower ul name \<notin> set (map fst VOICES)"
  then have "map_of VOICES (lower ul name) = None"
    using map_of_None_iff [of VOICES "lower ul name"] by blast
  then show "resolve_voice ul name =
        Inl (ValueError (str ''Unknown voice '' @ [39] @ name @ [39] @ str ''. Available: ''
               @ str ''daniel, hans, joanna, marlene, matthew, maxim, seoyeon, tatyana, vicki''))"
    by (simp add: resolve_voice_def unknown_voice_message_def available_eq)
next
  assume "lower ul name \<in> set (map fst VOICES)"
  then have "map_of VOICES (lower ul name) \<noteq> None"
    using map_of_None_iff [of VOICES "lower ul name"] by blast
  then obtain cfg where "map_of VOICES (lower ul name) = Some cfg" by blast
  then show "\<exists>cfg. resolve_voice ul name = Inr cfg" by (simp add: resolve_voice_def)
qed


theorem resolve_voice_unknown_witness:
  "\<forall>ul. lower ul (str ''nonexistent'') \<notin> set (map fst VOICES)
     \<and> resolve_voice ul (str ''nonexistent'') =
         Inl (ValueError (str ''Unknown voice 'nonexistent'. Available: daniel, hans, joanna, marlene, matthew, maxim, seoyeon, tatyana, vicki''))
     \<and> lower ul (str ''Hans'') \<in> set (map fst VOICES)
     \<and> (\<exists>cfg. resolve_voice ul (str ''Hans'') = Inr cfg)"
proof
  fix ul
  have a: "lower ul (str ''nonexistent'') \<notin> set (map fst VOICES)"
    by (simp add: lower_def is_ascii_def ascii_lower_def VOICES_def str_def)
  have b: "lower ul (str ''Hans'') \<in> set (map fst VOICES)"
    by (simp add: lower_def is_ascii_def ascii_lower_def VOICES_def str_def)
  from a b resolve_voice_unknown [of ul "str ''nonexistent''"] resolve_voice_unknown [of ul "str ''Hans''"]
  show "lower ul (str ''nonexistent'') \<notin> set (map fst VOICES)
     \<and> resolve_voice ul (str ''nonexistent'') =
         Inl (ValueError (str ''Unknown voice 'nonexistent'. Available: daniel, hans, joanna, marlene, matthew, maxim, seoyeon, tatyana, vicki''))
     \<and> lower ul (str ''Hans'') \<in> set (map fst VOICES)
     \<and> (\<exists>cfg. resolve_voice ul (str ''Hans'') = Inr cfg)"
    by (simp add: str_def)
qed

section \<open>\<open>SynthesisRequest\<close>\<close>

text \<open>
  C10. A \<open>SynthesisRequest\<close> built without a rate has the rate 75, whatever its text and
  voice.
\<close>

theorem request_default_rate: "req_rate (SynthesisRequest_init t v None) = 75"
  by (simp add: SynthesisRequest_init_def)

lemma request_given_rate: "req_rate (SynthesisRequest_init t v (Some r)) = r"
  by (simp add: SynthesisRequest_init_def)

section \<open>The command line: default output names\<close>

lemma synthesize_hello:
  "synthesize ul (str ''hello'') (str ''joanna'') 75 None =
     Inr (Call_synthesize (SynthesisRequest_init (str ''hello'') (mk_voice ''Joanna'' ''en-US'' ''neural'') (Some 75))
            (Div Cwd (str ''joanna_hello.mp3'')))"
  by (simp add: synthesize_def resolve_voice_joanna) (simp add: str_def replace_def)

lemma no_prefix_gives_joanna_hello:
  "generate_filename (str ''hello'') p \<noteq> Inr (str ''joanna_hello.mp3'')"
proof
  assume "generate_filename (str ''hello'') p = Inr (str ''joanna_hello.mp3'')"
  then have eq: "p @ str ''5d41402abc4b.mp3'' = str ''joanna_hello.mp3''"
    by (simp add: generate_filename_text_digest text_digest_hello) (simp add: str_def)
  then have "length (p @ str ''5d41402abc4b.mp3'') = length (str ''joanna_hello.mp3'')" by simp
  then have "p = []" by (simp add: str_def)
  with eq show False by (simp add: str_def)
qed

text \<open>
  C3, as stated, fails: without \<open>--output\<close> the command \<open>synthesize\<close> names the file
  after the voice and the start of the text. For the text \<open>hello\<close> and the voice
  \<open>joanna\<close> that is \<open>joanna_hello.mp3\<close>, which \<open>generate_filename\<close> gives for no prefix.
\<close>

theorem synthesize_default_output_not_hashed:
  "(\<forall>ul. map_sum id call_output (synthesize ul (str ''hello'') (str ''joanna'') 75 None)
            = Inr (Div Cwd (str ''joanna_hello.mp3'')))
   \<and> generate_filename (str ''hello'') [] = Inr (str ''5d41402abc4b.mp3'')
   \<and> (\<forall>p. generate_filename (str ''hello'') p \<noteq> Inr (str ''joanna_hello.mp3''))"
  by (simp add: synthesize_hello no_prefix_gives_joanna_hello generate_filename_text_digest
        text_digest_hello)
     (simp add: str_def)

text \<open>
  C3, amended. Without an output path, \<open>synthesize\<close> writes to the working directory
  under the voice name as typed, an underscore, the first 20 characters of the text with
  spaces turned into underscores, and \<open>.mp3\<close>; \<open>synthesize_pair\<close> writes to \<open>pair_\<close>, the
  first 10 characters of each text with an underscore between, and \<open>.mp3\<close>.
\<close>

theorem default_output_names:
  "(resolve_voice ul voice = Inr cfg \<longrightarrow>
      map_sum id call_output (synthesize ul text voice rate None) =
        Inr (Div Cwd (voice @ str ''_'' @ replace 32 95 (take 20 text) @ str ''.mp3'')))
   \<and> (resolve_voice ul voice1 = Inr c1 \<and> resolve_voice ul voice2 = Inr c2 \<longrightarrow>
      map_sum id call_output (synthesize_pair ul text1 text2 voice1 voice2 rate pause None) =
        Inr (Div Cwd (str ''pair_'' @ take 10 text1 @ str ''_'' @ take 10 text2 @ str ''.mp3'')))"
  by (simp add: synthesize_def synthesize_pair_def Let_def)

theorem default_output_names_witness:
  "\<forall>ul. resolve_voice ul (str ''joanna'') = Inr (mk_voice ''Joanna'' ''en-US'' ''neural'')
     \<and> resolve_voice ul (str ''hans'') = Inr (mk_voice ''Hans'' ''de-DE'' ''neural'')
     \<and> map_sum id call_output
           (synthesize ul (str ''good morning everyone, hello'') (str ''joanna'') 75 None) =
         Inr (Div Cwd (str ''joanna_good_morning_everyon.mp3''))
     \<and> map_sum id call_output
           (synthesize_pair ul (str ''strong'') (str ''stark'') (str ''joanna'') (str ''hans'')
              75 500 None) =
         Inr (Div Cwd (str ''pair_strong_stark.mp3''))"
proof
  fix ul
  note j = resolve_voice_joanna [of ul] and h = resolve_voice_hans [of ul]
  from default_output_names [of ul "str ''joanna''" "mk_voice ''Joanna'' ''en-US'' ''neural''"
      "str ''good morning everyone, hello''" 75 "str ''joanna''"
      "mk_voice ''Joanna'' ''en-US'' ''neural''" "str ''hans''"
      "mk_voice ''Hans'' ''de-DE'' ''neural''" "str ''strong''" "str ''stark''" 500] j h
  show "resolve_voice ul (str ''joanna'') = Inr (mk_voice ''Joanna'' ''en-US'' ''neural'')
     \<and> resolve_voice ul (str ''hans'') = Inr (mk_voice ''Hans'' ''de-DE'' ''neural'')
     \<and> map_sum id call_output
           (synthesize ul (str ''good morning everyone, hello'') (str ''joanna'') 75 None) =
         Inr (Div Cwd (str ''joanna_good_morning_everyon.mp3''))
     \<and> map_sum id call_output
           (synthesize_pair ul (str ''strong'') (str ''stark'') (str ''joanna'') (str ''hans'')
              75 500 None) =
         Inr (Div Cwd (str ''pair_strong_stark.mp3''))"
    by (simp add: str_def replace_def)
qed

section \<open>The command line: batch input\<close>

text \<open>
  C6, as stated, fails: an entry of a pair batch with three elements is no pair, yet
  \<open>synthesize_pair_batch\<close> raises nothing and calls the client with its first two elements.
\<close>

theorem pair_batch_accepts_long_entry:
  "\<forall>ul. synthesize_pair_batch ul (str ''joanna'') (str ''hans'') 75 500 None False
     (Inr (JArr [JArr [JStr (str ''a''), JStr (str ''b''), JStr (str ''c'')]])) =
   Inr (Call_synthesize_pair_batch
          [(SynthesisRequest_init (JStr (str ''a'')) (mk_voice ''Joanna'' ''en-US'' ''neural'') (Some 75),
            SynthesisRequest_init (JStr (str ''b'')) (mk_voice ''Hans'' ''de-DE'' ''neural'') (Some 75))]
          Cwd ONE_FILE_PER_INPUT 500)"
  by (simp add: synthesize_pair_batch_def resolve_voice_joanna resolve_voice_hans
        out_dir_def merge_strategy_def)

lemma getitem_has_two:
  "has_two p \<longleftrightarrow> (\<exists>a b. getitem p 0 = Inr a \<and> getitem p 1 = Inr b)"
  by (cases p) (auto simp: has_two_def)

lemma getitem_first_two:
  "has_two p \<Longrightarrow> getitem p 0 = Inr (fst (first_two p)) \<and> getitem p (Suc 0) = Inr (snd (first_two p))"
  by (cases p) (auto simp: has_two_def first_two_def)

lemma make_pairs_fails:
  "\<not> list_all has_two ps \<Longrightarrow> isl (make_pairs v1 v2 rate ps)"
proof (induction ps)
  case Nil
  then show ?case by simp
next
  case (Cons p ps)
  then show ?case
    by (cases "has_two p") (auto simp: getitem_has_two split: sum.splits)
qed

lemma make_pairs_ok:
  "list_all has_two ps \<Longrightarrow>
   make_pairs v1 v2 rate ps =
     Inr (map (\<lambda>p. (SynthesisRequest_init (fst (first_two p)) v1 (Some rate),
                     SynthesisRequest_init (snd (first_two p)) v2 (Some rate))) ps)"
proof (induction ps)
  case Nil
  then show ?case by simp
next
  case (Cons p ps)
  then show ?case by (simp add: getitem_first_two)
qed

text \<open>
  C6, amended. Once the voices have resolved (an unknown voice raises first), a batch
  command whose input file cannot be read or parsed raises that exception, and one whose
  parsed content is no JSON array raises \<open>BadParameter\<close>; no client call is made. The
  entries of a pair batch are not checked for their length: when every entry has a first
  and a second element, \<open>synthesize_pair_batch\<close> calls the client with these two elements
  of each entry as the pair.
\<close>

theorem invalid_batch_input:
  "synthesize_batch ul voice rate d m pause (Inl e) =
     (case resolve_voice ul voice of Inl e' \<Rightarrow> Inl e' | Inr cfg \<Rightarrow> Inl e)
   \<and> synthesize_pair_batch ul voice1 voice2 rate pause d m (Inl e) =
     (case resolve_voice ul voice1 of
        Inl e' \<Rightarrow> Inl e'
      | Inr c1 \<Rightarrow> (case resolve_voice ul voice2 of Inl e' \<Rightarrow> Inl e' | Inr c2 \<Rightarrow> Inl e))
   \<and> (\<not> is_array raw \<longrightarrow>
      synthesize_batch ul voice rate d m pause (Inr raw) =
        (case resolve_voice ul voice of
           Inl e' \<Rightarrow> Inl e'
         | Inr cfg \<Rightarrow> Inl (BadParameter (str ''INPUT_FILE must contain a JSON array of strings.'')))
      \<and> synthesize_pair_batch ul voice1 voice2 rate pause d m (Inr raw) =
        (case resolve_voice ul voice1 of
           Inl e' \<Rightarrow> Inl e'
         | Inr c1 \<Rightarrow>
        (case resolve_voice ul voice2 of
           Inl e' \<Rightarrow> Inl e'
         | Inr c2 \<Rightarrow>
             Inl (BadParameter
                    (str ''INPUT_FILE must contain a JSON array of [text1, text2] pairs.'')))))
   \<and> (resolve_voice ul voice1 = Inr c1 \<and> resolve_voice ul voice2 = Inr c2
        \<and> list_all has_two ps \<longrightarrow>
      synthesize_pair_batch ul voice1 voice2 rate pause d m (Inr (JArr ps)) =
        Inr (Call_synthesize_pair_batch
               (map (\<lambda>p. (SynthesisRequest_init (fst (first_two p)) c1 (Some rate),
                           SynthesisRequest_init (snd (first_two p)) c2 (Some rate))) ps)
               (out_dir d) (merge_strategy m) pause))"
proof (intro conjI impI)
  show "synthesize_batch ul voice rate d m pause (Inl e) =
     (case resolve_voice ul voice of Inl e' \<Rightarrow> Inl e' | Inr cfg \<Rightarrow> Inl e)"
    by (simp add: synthesize_batch_def split: sum.splits)
next
  show "synthesize_pair_batch ul voice1 voice2 rate pause d m (Inl e) =
     (case resolve_voice ul voice1 of
        Inl e' \<Rightarrow> Inl e'
      | Inr c1 \<Rightarrow> (case resolve_voice ul voice2 of Inl e' \<Rightarrow> Inl e' | Inr c2 \<Rightarrow> Inl e))"
    by (simp add: synthesize_pair_batch_def split: sum.splits)
next
  assume "\<not> is_array raw"
  then show "synthesize_batch ul voice rate d m pause (Inr raw) =
        (case resolve_voice ul voice of
           Inl e' \<Rightarrow> Inl e'
         | Inr cfg \<Rightarrow> Inl (BadParameter (str ''INPUT_FILE must contain a JSON array of strings.'')))"
    by (cases raw) (simp_all add: synthesize_batch_def is_array_def split: sum.splits)
next
  assume "\<not> is_array raw"
  then show "synthesize_pair_batch ul voice1 voice2 rate pause d m (Inr raw) =
        (case resolve_voice ul voice1 of
           Inl e' \<Rightarrow> Inl e'
         | Inr c1 \<Rightarrow>
        (case resolve_voice ul voice2 of
           Inl e' \<Rightarrow> Inl e'
         | Inr c2 \<Rightarrow>
             Inl (BadParameter
                    (str ''INPUT_FILE must contain a JSON array of [text1, text2] pairs.''))))"
    by (cases raw) (simp_all add: synthesize_pair_batch_def is_array_def split: sum.splits)
next
  assume "resolve_voice ul voice1 = Inr c1 \<and> resolve_voice ul voice2 = Inr c2
        \<and> list_all has_two ps"
  then show "synthesize_pair_batch ul voice1 voice2 rate pause d m (Inr (JArr ps)) =
        Inr (Call_synthesize_pair_batch
               (map (\<lambda>p. (SynthesisRequest_init (fst (first_two p)) c1 (Some rate),
                           SynthesisRequest_init (snd (first_two p)) c2 (Some rate))) ps)
               (out_dir d) (merge_strategy m) pause)"
    by (simp add: synthesize_pair_batch_def make_pairs_ok)
qed

theorem invalid_batch_input_witness:
  "\<forall>ul. \<not> is_array (JObj [])
     \<and> list_all has_two [JArr [JStr (str ''strong''), JStr (str ''stark''), JStr (str ''x'')]]
     \<and> synthesize_batch ul (str ''joanna'') 75 None False 500 (Inl (JSONDecodeError []))
         = Inl (JSONDecodeError [])
     \<and> synthesize_batch ul (str ''joanna'') 75 None False 500 (Inr (JObj [])) =
         Inl (BadParameter (str ''INPUT_FILE must contain a JSON array of strings.''))
     \<and> synthesize_pair_batch ul (str ''joanna'') (str ''hans'') 75 500 None False (Inr (JObj [])) =
         Inl (BadParameter (str ''INPUT_FILE must contain a JSON array of [text1, text2] pairs.''))
     \<and> synthesize_pair_batch ul (str ''joanna'') (str ''hans'') 75 500 None False
           (Inr (JArr [JArr [JStr (str ''strong''), JStr (str ''stark''), JStr (str ''x'')]])) =
         Inr (Call_synthesize_pair_batch
                [(SynthesisRequest_init (JStr (str ''strong'')) (mk_voice ''Joanna'' ''en-US'' ''neural'') (Some 75),
                  SynthesisRequest_init (JStr (str ''stark'')) (mk_voice ''Hans'' ''de-DE'' ''neural'') (Some 75))]
                Cwd ONE_FILE_PER_INPUT 500)"
proof
  fix ul
  let ?ps = "[JArr [JStr (str ''strong''), JStr (str ''stark''), JStr (str ''x'')]]"
  have a: "\<not> is_array (JObj [])" by (simp add: is_array_def)
  have b: "list_all has_two ?ps" by (simp add: has_two_def)
  note j = resolve_voice_joanna [of ul] and h = resolve_voice_hans [of ul]
  from invalid_batch_input [of ul "str ''joanna''" 75 None False 500 "JSONDecodeError []"
      "str ''joanna''" "str ''hans''" "JObj []"
      "mk_voice ''Joanna'' ''en-US'' ''neural''" "mk_voice ''Hans'' ''de-DE'' ''neural''" ?ps]
    a b j h
  show "\<not> is_array (JObj [])
     \<and> list_all has_two ?ps
     \<and> synthesize_batch ul (str ''joanna'') 75 None False 500 (Inl (JSONDecodeError []))
         = Inl (JSONDecodeError [])
     \<and> synthesize_batch ul (str ''joanna'') 75 None False 500 (Inr (JObj [])) =
         Inl (BadParameter (str ''INPUT_FILE must contain a JSON array of strings.''))
     \<and> synthesize_pair_batch ul (str ''joanna'') (str ''hans'') 75 500 None False (Inr (JObj [])) =
         Inl (BadParameter (str ''INPUT_FILE must contain a JSON array of [text1, text2] pairs.''))
     \<and> synthesize_pair_batch ul (str ''joanna'') (str ''hans'') 75 500 None False (Inr (JArr ?ps)) =
         Inr (Call_synthesize_pair_batch
                [(SynthesisRequest_init (JStr (str ''strong'')) (mk_voice ''Joanna'' ''en-US'' ''neural'') (Some 75),
                  SynthesisRequest_init (JStr (str ''stark'')) (mk_voice ''Hans'' ''de-DE'' ''neural'') (Some 75))]
                Cwd ONE_FILE_PER_INPUT 500)"
    by (simp add: first_two_def out_dir_def merge_strategy_def)
qed

section \<open>Frozen dataclasses\<close>

lemma exec_frozen:
  "frozen (fst obj) \<Longrightarrow> \<exists>a name. exec obj s = Inl (FrozenInstanceError a name)"
  by (cases s) (simp_all add: setattr_def delattr_def)

lemma run_frozen:
  assumes "frozen (fst obj)"
  shows "fst (run obj stmts) = obj \<and> length (snd (run obj stmts)) = length stmts
         \<and> list_all raised_frozen (snd (run obj stmts))"
proof (induction stmts)
  case Nil
  then show ?case by simp
next
  case (Cons s ss)
  from exec_frozen [OF assms, of s] obtain a name
    where e: "exec obj s = Inl (FrozenInstanceError a name)" by blast
  obtain obj' es' where r: "run obj ss = (obj', es')" by (cases "run obj ss")
  with Cons.IH have "obj' = obj" "length es' = length ss" "list_all raised_frozen es'"
    by simp_all
  moreover have "raised_frozen (Some (FrozenInstanceError a name))"
    by (simp add: raised_frozen_def)
  ultimately show ?case using e r by simp
qed

lemma frozen_VoiceConfig: "frozen (fst (VoiceConfig_new c))"
  by (simp add: VoiceConfig_new_def VoiceConfig_class_def)

lemma frozen_SynthesisRequest: "frozen (fst (SynthesisRequest_new r))"
  by (simp add: SynthesisRequest_new_def SynthesisRequest_class_def)

lemma frozen_SynthesisResult: "frozen (fst (SynthesisResult_new res))"
  by (simp add: SynthesisResult_new_def SynthesisResult_class_def)

text \<open>
  C9, as stated, fails: \<open>object.__setattr__\<close> is an operation that changes a field of a
  frozen instance.
\<close>

theorem object_setattr_changes_field:
  "snd (VoiceConfig_new (mk_voice ''Joanna'' ''en-US'' ''neural'')) (str ''voice_id'')
     = Some (VStr (str ''Joanna''))
   \<and> snd (object_setattr (VoiceConfig_new (mk_voice ''Joanna'' ''en-US'' ''neural''))
            (str ''voice_id'') (VStr (str ''Matthew''))) (str ''voice_id'')
     = Some (VStr (str ''Matthew''))
   \<and> str ''Joanna'' \<noteq> str ''Matthew''"
  by (simp add: object_setattr_def VoiceConfig_new_def mk_voice_def) (simp add: str_def)

text \<open>
  C9, amended. An instance of \<open>VoiceConfig\<close>, \<open>SynthesisRequest\<close> or \<open>SynthesisResult\<close>
  resists assignment and deletion: whatever statements \<open>obj.name = value\<close> and
  \<open>del obj.name\<close> are tried on it, each of them raises \<open>FrozenInstanceError\<close> and the
  instance is as before.
\<close>

theorem dataclasses_immutable:
  "fst (run (VoiceConfig_new c) stmts) = VoiceConfig_new c
   \<and> list_all raised_frozen (snd (run (VoiceConfig_new c) stmts))
   \<and> length (snd (run (VoiceConfig_new c) stmts)) = length stmts
   \<and> fst (run (SynthesisRequest_new r) stmts) = SynthesisRequest_new r
   \<and> list_all raised_frozen (snd (run (SynthesisRequest_new r) stmts))
   \<and> length (snd (run (SynthesisRequest_new r) stmts)) = length stmts
   \<and> fst (run (SynthesisResult_new res) stmts) = SynthesisResult_new res
   \<and> list_all raised_frozen (snd (run (SynthesisResult_new res) stmts))
   \<and> length (snd (run (SynthesisResult_new res) stmts)) = length stmts"
  using run_frozen [OF frozen_VoiceConfig, of c stmts]
    run_frozen [OF frozen_SynthesisRequest, of r stmts]
    run_frozen [OF frozen_SynthesisResult, of res stmts]
  by simp

text \<open>The assignments that the tests of the repository try.\<close>

lemma voice_config_is_frozen:
  "setattr (VoiceConfig_new (mk_voice ''Joanna'' ''en-US'' ''neural'')) (str ''voice_id'')
     (VStr (str ''Matthew''))
   = Inl (FrozenInstanceError Assigning (str ''voice_id''))"
  by (simp add: setattr_def frozen_VoiceConfig)

lemma request_is_frozen:
  "run (SynthesisRequest_new (SynthesisRequest_init (str ''hello'') v None))
     [SetAttr (str ''text'') (VStr (str ''world''))]
   = (SynthesisRequest_new (SynthesisRequest_init (str ''hello'') v None),
      [Some (FrozenInstanceError Assigning (str ''text''))])"
  by (simp add: setattr_def frozen_SynthesisRequest)

text \<open>On a class that is not frozen the same statements go through.\<close>

lemma setattr_not_frozen:
  "\<not> frozen cls \<Longrightarrow> setattr (cls, d) name v = Inr (cls, d(name \<mapsto> v))"
  by (simp add: setattr_def object_setattr_def)

lemma delattr_not_frozen:
  "\<not> frozen cls \<Longrightarrow> d name = Some v \<Longrightarrow> delattr (cls, d) name = Inr (cls, d(name := None))"
  by (simp add: delattr_def object_delattr_def)

section \<open>The merged batch\<close>

lemma join_append_head: "join sep ((a @ b) # rest) = a @ join sep (b # rest)"
  by (cases rest) simp_all

lemma foldl_join:
  "foldl (\<lambda>acc seg. acc @ sep @ seg) first rest = join sep (first # rest)"
proof (induction rest arbitrary: first)
  case Nil
  then show ?case by simp
next
  case (Cons r rest)
  have "foldl (\<lambda>acc seg. acc @ sep @ seg) first (r # rest)
        = foldl (\<lambda>acc seg. acc @ sep @ seg) (first @ sep @ r) rest" by simp
  also have "\<dots> = join sep ((first @ sep @ r) # rest)" by (rule Cons.IH)
  also have "\<dots> = first @ join sep ((sep @ r) # rest)" by (rule join_append_head)
  also have "\<dots> = first @ sep @ join sep (r # rest)" by (simp only: join_append_head)
  finally show ?case by simp
qed

lemma synthesize_all_answers:
  "synthesize_all backend rs = Inr streams \<Longrightarrow> list_all2 (\<lambda>r s. backend r = Inr s) rs streams"
  by (induction rs arbitrary: streams) (auto split: sum.splits)

lemma decode_all_segments:
  "decode_all dec streams = Inr segs \<Longrightarrow> list_all2 (\<lambda>s d. dec s = Some d) streams segs"
  by (induction streams arbitrary: segs) (auto split: option.splits sum.splits)

lemma assemble_join:
  assumes "decode_all (codec_decode codec) streams = Inr segs" and "segs \<noteq> []"
  shows "assemble codec streams ms = Inr (codec_encode codec (join (codec_silence codec ms) segs))"
proof -
  from assms(2) obtain d ds where "segs = d # ds" by (cases segs) auto
  with assms(1) show ?thesis by (simp add: assemble_def foldl_join)
qed

lemma per_batch_one_result:
  "PollyClient_synthesize_batch backend codec requests dir ONE_FILE_PER_BATCH ms = (effects, Inr results)
   \<Longrightarrow> length results = 1"
  by (auto simp: PollyClient_synthesize_batch_def Let_def split: sum.splits)

text \<open>
  C2. For a batch that is not empty, with one file for the batch: when the backend
  answers every request, every answer decodes and the joined text is well-formed,
  \<open>synthesize_batch\<close> returns exactly one result. Its text is the texts of the requests in
  input order joined by \<open>" | "\<close>, and the one file written holds the decoded answers in
  input order with the silence between neighbours.
\<close>

theorem synthesize_batch_per_batch:
  assumes "requests \<noteq> []"
    and "synthesize_all backend requests = Inr streams"
    and "decode_all (codec_decode codec) streams = Inr segs"
    and "well_formed (join (str '' | '') (map req_text requests))"
  shows "\<exists>name. generate_filename (join (str '' | '') (map req_text requests)) [] = Inr name \<and>
           PollyClient_synthesize_batch backend codec requests output_dir ONE_FILE_PER_BATCH pause_ms =
             ([Mkdir output_dir,
               Write (Div output_dir name)
                 (codec_encode codec (join (codec_silence codec pause_ms) segs))],
              Inr [\<lparr>file_path = Div output_dir name,
                    res_text = join (str '' | '') (map req_text requests),
                    voice_name = voice_label requests\<rparr>])
         \<and> list_all2 (\<lambda>r s. backend r = Inr s) requests streams
         \<and> list_all2 (\<lambda>s d. codec_decode codec s = Some d) streams segs"
proof -
  have a: "list_all2 (\<lambda>r s. backend r = Inr s) requests streams"
    using assms(2) by (rule synthesize_all_answers)
  have b: "list_all2 (\<lambda>s d. codec_decode codec s = Some d) streams segs"
    using assms(3) by (rule decode_all_segments)
  from a b assms(1) have "segs \<noteq> []" by (auto simp: list_all2_Cons1 neq_Nil_conv)
  with assms(3) have m: "assemble codec streams pause_ms
      = Inr (codec_encode codec (join (codec_silence codec pause_ms) segs))"
    by (rule assemble_join)
  from text_digest_well_formed [OF assms(4)] obtain d
    where "text_digest (join (str '' | '') (map req_text requests)) = Inr d" by blast
  then have "generate_filename (join (str '' | '') (map req_text requests)) []
      = Inr ([] @ d @ str ''.mp3'')" by (simp add: generate_filename_text_digest)
  then obtain name
    where n: "generate_filename (join (str '' | '') (map req_text requests)) [] = Inr name" by blast
  show ?thesis
    using a b n m assms(2) by (simp add: PollyClient_synthesize_batch_def Let_def)
qed


theorem synthesize_batch_per_batch_witness:
  "[SynthesisRequest_init (str ''t1'') (mk_voice ''Joanna'' ''en-US'' ''neural'') None,
    SynthesisRequest_init (str ''t2'') (mk_voice ''Joanna'' ''en-US'' ''neural'') None] \<noteq> []
   \<and> well_formed (str ''t1 | t2'')
   \<and> (\<exists>name. generate_filename (str ''t1 | t2'') [] = Inr name \<and>
         PollyClient_synthesize_batch (\<lambda>r. Inr (req_text r))
           \<lparr>codec_decode = Some, codec_silence = (\<lambda>ms. replicate (nat ms) 0), codec_encode = id\<rparr>
           [SynthesisRequest_init (str ''t1'') (mk_voice ''Joanna'' ''en-US'' ''neural'') None,
            SynthesisRequest_init (str ''t2'') (mk_voice ''Joanna'' ''en-US'' ''neural'') None]
           Cwd ONE_FILE_PER_BATCH 2 =
         ([Mkdir Cwd, Write (Div Cwd name) (str ''t1'' @ [0, 0] @ str ''t2'')],
          Inr [\<lparr>file_path = Div Cwd name, res_text = str ''t1 | t2'',
                voice_name = str ''Joanna''\<rparr>]))"
proof -
  let ?v = "mk_voice ''Joanna'' ''en-US'' ''neural''"
  let ?rs = "[SynthesisRequest_init (str ''t1'') ?v None, SynthesisRequest_init (str ''t2'') ?v None]"
  let ?backend = "\<lambda>r :: pystr SynthesisRequest. Inr (req_text r) :: pystr + pystr"
  let ?codec = "\<lparr>codec_decode = Some, codec_silence = (\<lambda>ms. replicate (nat ms) (0::nat)),
                 codec_encode = id\<rparr>"
  have t: "join (str '' | '') (map req_text ?rs) = str ''t1 | t2''"
    by (simp add: SynthesisRequest_init_def str_def)
  have n: "?rs \<noteq> []" by simp
  have s: "synthesize_all ?backend ?rs = Inr [str ''t1'', str ''t2'']"
    by (simp add: SynthesisRequest_init_def)
  have d: "decode_all (codec_decode ?codec) [str ''t1'', str ''t2''] = Inr [str ''t1'', str ''t2'']"
    by simp
  have w: "well_formed (join (str '' | '') (map req_text ?rs))"
    unfolding t by (simp add: well_formed_def str_def)
  have l: "voice_label ?rs = str ''Joanna''"
    by (simp add: voice_label_def SynthesisRequest_init_def mk_voice_def)
  have j: "join (codec_silence ?codec 2) [str ''t1'', str ''t2''] = str ''t1'' @ [0, 0] @ str ''t2''"
    by (simp add: numeral_2_eq_2)
  from synthesize_batch_per_batch [OF n s d w, of Cwd 2] obtain name
    where "generate_filename (join (str '' | '') (map req_text ?rs)) [] = Inr name"
      and "PollyClient_synthesize_batch ?backend ?codec ?rs Cwd ONE_FILE_PER_BATCH 2 =
             ([Mkdir Cwd,
               Write (Div Cwd name) (codec_encode ?codec (join (codec_silence ?codec 2)
                 [str ''t1'', str ''t2'']))],
              Inr [\<lparr>file_path = Div Cwd name,
                    res_text = join (str '' | '') (map req_text ?rs),
                    voice_name = voice_label ?rs\<rparr>])"
    by blast
  then show ?thesis using w unfolding t l j by auto
qed

end
